theory Spec2Isabelle
  imports Complex_Main "HOL-Library.Monad_Syntax"
begin

section \<open>The analytics engine of \<^verbatim>\<open>src/app.py\<close>\<close>

text \<open>
  The engine reads a table of workout rows and derives per-record metrics, phase
  targets, weekly aggregates, risk flags, a rolling series and a readiness score.
  The embedding follows \<^verbatim>\<open>src/app.py\<close> function by function. What the code takes from
  its libraries is modelled as follows.
  \<^item> A \<^verbatim>\<open>datetime.date\<close> is its proleptic Gregorian ordinal (\<^verbatim>\<open>date.toordinal()\<close>), an
    \<open>int\<close>: comparing dates is comparing ordinals, adding \<^verbatim>\<open>timedelta(days=k)\<close> is adding
    \<open>k\<close>. The year of a date and the constructor \<^verbatim>\<open>date(y, m, d)\<close> follow the arithmetic of
    CPython's \<^verbatim>\<open>_ord2ymd\<close> and \<^verbatim>\<open>_ymd2ord\<close>. The calendar is taken unbounded: the library's
    limit to the years 1 to 9999 (\<open>in_date_range\<close>) is not part of the arithmetic. Every date
    that \<open>week_range\<close>, \<open>risk_flags\<close> and \<open>readiness_score\<close> compute from \<open>today\<close> lies
    between \<open>today - 34\<close> and \<open>today + 7\<close> (lemma \<open>computed_dates_in_range\<close>), so the
    model and the library agree unless \<open>today\<close> is within that distance of \<^verbatim>\<open>date.min\<close> or
    \<^verbatim>\<open>date.max\<close>.
  \<^item> A Python \<^verbatim>\<open>float\<close> is a \<open>real\<close>: arithmetic is exact, rounding error is not modelled.
    Python's \<^verbatim>\<open>int\<close> is \<open>int\<close>.
  \<^item> A raised \<^verbatim>\<open>ZeroDivisionError\<close> is the value \<open>None\<close>: a division whose divisor is
    computed goes through \<open>py_truediv\<close>, and the functions that contain one return an
    \<open>option\<close>. A division by a non-zero literal, also through a local name bound to one, is
    written with \<open>/\<close>.
  \<^item> The table behind \<^verbatim>\<open>db.session.query(Workout)\<close> is a list of rows, passed to every
    function that queries it; \<^verbatim>\<open>date.today()\<close> is the parameter \<open>now\<close>.
  \<^item> Text is a \<open>string\<close>; \<^verbatim>\<open>str.lower\<close> folds the ASCII letters.
\<close>

subsection \<open>Dates\<close>

type_synonym date = int

definition is_leap :: "int \<Rightarrow> bool" where
  "is_leap year = (year mod 4 = 0 \<and> (year mod 100 \<noteq> 0 \<or> year mod 400 = 0))"

definition days_before_year :: "int \<Rightarrow> int" where
  "days_before_year year =
     (let y = year - 1 in y * 365 + y div 4 - y div 100 + y div 400)"

definition days_before_month :: "int \<Rightarrow> int \<Rightarrow> int" where
  "days_before_month year month =
     [0, 31, 59, 90, 120, 151, 181, 212, 243, 273, 304, 334] ! nat (month - 1)
       + (if month > 2 \<and> is_leap year then 1 else 0)"

text \<open>\<^verbatim>\<open>date(year, month, day)\<close>, for a month from 1 to 12.\<close>

definition ymd2ord :: "int \<Rightarrow> int \<Rightarrow> int \<Rightarrow> date" where
  "ymd2ord year month day = days_before_year year + days_before_month year month + day"

text \<open>\<^verbatim>\<open>d.year\<close>: the year component that \<^verbatim>\<open>_ord2ymd\<close> computes.\<close>

definition date_year :: "date \<Rightarrow> int" where
  "date_year d =
     (let n = d - 1;
          n400 = n div 146097; n = n mod 146097;
          year = n400 * 400 + 1;
          n100 = n div 36524; n = n mod 36524;
          n4 = n div 1461; n = n mod 1461;
          n1 = n div 365;
          year = year + n100 * 100 + n4 * 4 + n1
      in if n1 = 4 \<or> n100 = 4 then year - 1 else year)"

text \<open>\<^verbatim>\<open>d.weekday()\<close> (Monday is 0) and \<^verbatim>\<open>d.isoweekday()\<close> (Monday is 1).\<close>

definition weekday :: "date \<Rightarrow> int" where
  "weekday d = (d + 6) mod 7"

definition isoweekday :: "date \<Rightarrow> int" where
  "isoweekday d = (if d mod 7 \<noteq> 0 then d mod 7 else 7)"

text \<open>The ordinals from \<^verbatim>\<open>date.min\<close> (1 January of year 1) to \<^verbatim>\<open>date.max\<close> (31 December 9999).\<close>

definition in_date_range :: "date \<Rightarrow> bool" where
  "in_date_range d = (ymd2ord 1 1 1 \<le> d \<and> d \<le> ymd2ord 9999 12 31)"

subsection \<open>Numbers and text\<close>

text \<open>\<^verbatim>\<open>a / b\<close> on numbers: \<open>None\<close> is the raised \<^verbatim>\<open>ZeroDivisionError\<close>.\<close>

definition py_truediv :: "real \<Rightarrow> real \<Rightarrow> real option" where
  "py_truediv a b = (if b = 0 then None else Some (a / b))"

text \<open>\<^verbatim>\<open>round(x)\<close>: to the nearest integer, a tie to the even one.\<close>

definition py_round :: "real \<Rightarrow> int" where
  "py_round x =
     (let f = \<lfloor>x\<rfloor>; r = x - of_int f
      in if r < 1 / 2 then f else if r > 1 / 2 then f + 1
         else if even f then f else f + 1)"

text \<open>\<^verbatim>\<open>round(x, 1)\<close>: to one decimal.\<close>

definition py_round1 :: "real \<Rightarrow> real" where
  "py_round1 x = of_int (py_round (x * 10)) / 10"

text \<open>\<^verbatim>\<open>max(xs, default=d)\<close>.\<close>

definition py_max_default :: "int list \<Rightarrow> int \<Rightarrow> int" where
  "py_max_default xs d = (case xs of [] \<Rightarrow> d | y # ys \<Rightarrow> fold max ys y)"

text \<open>SQL's \<^verbatim>\<open>AVG\<close> and \<^verbatim>\<open>MAX\<close> over a column: \<^verbatim>\<open>NULL\<close> (\<open>None\<close>) when no row matches.\<close>

definition sql_avg :: "int list \<Rightarrow> real option" where
  "sql_avg xs =
     (if xs = [] then None else Some (of_int (sum_list xs) / of_nat (length xs)))"

definition sql_max :: "int list \<Rightarrow> int option" where
  "sql_max xs = (case xs of [] \<Rightarrow> None | y # ys \<Rightarrow> Some (fold max ys y))"

definition lower_char :: "char \<Rightarrow> char" where
  "lower_char c =
     (let n = (of_char c :: nat) in if 65 \<le> n \<and> n \<le> 90 then char_of (n + 32) else c)"

definition py_lower :: "string \<Rightarrow> string" where
  "py_lower s = map lower_char s"

fun starts_with :: "string \<Rightarrow> string \<Rightarrow> bool" where
  "starts_with s [] = True"
| "starts_with [] (k # ks) = False"
| "starts_with (c # cs) (k # ks) = (c = k \<and> starts_with cs ks)"

text \<open>\<^verbatim>\<open>k in s\<close> on strings.\<close>

fun py_in :: "string \<Rightarrow> string \<Rightarrow> bool" where
  "py_in k [] = (k = [])"
| "py_in k (c # cs) = (starts_with (c # cs) k \<or> py_in k cs)"

subsection \<open>Workout rows and their derived metrics\<close>

record workout =
  workout_id :: int
  session_date :: date
  wtype :: string
  duration_min :: int
  distance_mi :: real
  incline_pct :: real
  pack_lb :: real
  rpe :: int
  "notes" :: "string option"

definition vertical_ft :: "workout \<Rightarrow> real" where
  "vertical_ft w = distance_mi w * 5280 * (incline_pct w / 100)"

definition load_score :: "workout \<Rightarrow> real" where
  "load_score w = (let v = vertical_ft w in v * (1 + pack_lb w / 50))"

definition session_stress :: "workout \<Rightarrow> real" where
  "session_stress w =
     (let load_factor = 1 + pack_lb w / 40
      in of_int (duration_min w) * of_int (max (rpe w) 1) * load_factor)"

text \<open>The checks of \<^verbatim>\<open>log_workout_submit\<close> that a row passes before it is stored.\<close>

definition accepted :: "workout \<Rightarrow> bool" where
  "accepted w =
     (wtype w \<in> set [''incline'', ''flat'', ''strength'', ''recovery'']
      \<and> \<not> duration_min w \<le> 0
      \<and> (1 \<le> rpe w \<and> rpe w \<le> 10)
      \<and> \<not> (distance_mi w < 0 \<or> incline_pct w < 0 \<or> pack_lb w < 0))"

subsection \<open>Phase targets\<close>

record phase_targets =
  name :: string
  vert_min :: int
  vert_max :: int
  long_min :: int
  long_max :: int
  pack_min :: int
  pack_max :: int

definition PhaseTargets ::
  "string \<Rightarrow> int \<Rightarrow> int \<Rightarrow> int \<Rightarrow> int \<Rightarrow> int \<Rightarrow> int \<Rightarrow> phase_targets" where
  "PhaseTargets n vmin vmax lmin lmax pmin pmax =
     \<lparr>name = n, vert_min = vmin, vert_max = vmax, long_min = lmin, long_max = lmax,
      pack_min = pmin, pack_max = pmax\<rparr>"

definition phase_for :: "date \<Rightarrow> phase_targets" where
  "phase_for d =
     (let y = date_year d;
          feb1 = ymd2ord y 2 1;
          apr1 = ymd2ord y 4 1;
          jun1 = ymd2ord y 6 1;
          aug1 = ymd2ord y 8 1
      in if d < apr1 then PhaseTargets ''Base'' 1500 2000 45 60 0 5
         else if d < jun1 then PhaseTargets ''Build'' 3000 4500 60 75 10 20
         else if d < aug1 then PhaseTargets ''Peak'' 6000 9000 75 90 20 35
         else PhaseTargets ''Taper'' 2000 3000 45 60 0 15)"

subsection \<open>Weekly aggregation\<close>

definition week_range :: "date \<Rightarrow> date \<times> date" where
  "week_range d =
     (let start = d - weekday d;
          end = start + 7
      in (start, end))"

record week_metrics =
  vert :: real
  stress :: real
  avg_pack :: real
  max_long :: int
  count :: real
  missed :: real

definition sum_week_metrics :: "workout list \<Rightarrow> date \<Rightarrow> date \<Rightarrow> week_metrics option" where
  "sum_week_metrics db start end =
     (let rows = sort_key session_date
                   (filter (\<lambda>w. session_date w \<ge> start \<and> session_date w < end) db);
          vert = sum_list (map vertical_ft rows);
          stress = sum_list (map session_stress rows)
      in do {
        avg_pack \<leftarrow> (if rows \<noteq> []
                     then py_truediv (sum_list (map pack_lb rows)) (of_nat (length rows))
                     else Some 0);
        let max_long = py_max_default (map duration_min rows) 0;
        let missed = (0 :: int);
        Some \<lparr>vert = vert, stress = stress, avg_pack = avg_pack, max_long = max_long,
              count = of_nat (length rows), missed = of_int missed\<rparr>
      })"

subsection \<open>The rolling series\<close>

text \<open>
  The four lists that \<^verbatim>\<open>last_n_weeks_series\<close> fills. A week's label is kept as the
  week's start date: its \<^verbatim>\<open>strftime\<close> text is not modelled.
\<close>

record series =
  weeks :: "date list"
  verts :: "int list"
  packs :: "real list"
  stresses :: "real list"

text \<open>The loop of \<^verbatim>\<open>last_n_weeks_series\<close> over the week offsets still to visit.\<close>

fun series_loop :: "workout list \<Rightarrow> date \<Rightarrow> int list \<Rightarrow> series \<Rightarrow> series option" where
  "series_loop db start_this_week [] acc = Some acc"
| "series_loop db start_this_week (i # rest) acc =
     (let ws = start_this_week - 7 * i;
          we = ws + 7
      in do {
        m \<leftarrow> sum_week_metrics db ws we;
        series_loop db start_this_week rest
          \<lparr>weeks = weeks acc @ [ws],
           verts = verts acc @ [py_round (vert m)],
           packs = packs acc @ [py_round1 (avg_pack m)],
           stresses = stresses acc @ [py_round1 (stress m)]\<rparr>
      })"

definition last_n_weeks_series :: "workout list \<Rightarrow> date \<Rightarrow> int \<Rightarrow> series option" where
  "last_n_weeks_series db now n =
     (let today = now;
          start_this_week = fst (week_range today)
      in series_loop db start_this_week (rev [0..n - 1])
           \<lparr>weeks = [], verts = [], packs = [], stresses = []\<rparr>)"

subsection \<open>The queries of the risk rules and of the score\<close>

text \<open>
  \<^verbatim>\<open>query(func.avg(Workout.rpe)).filter(session_date >= lo, session_date <= hi).scalar()\<close>
\<close>

definition avg_rpe_between :: "workout list \<Rightarrow> date \<Rightarrow> date \<Rightarrow> real option" where
  "avg_rpe_between db lo hi =
     sql_avg (map rpe (filter (\<lambda>w. session_date w \<ge> lo \<and> session_date w \<le> hi) db))"

text \<open>
  \<^verbatim>\<open>query(func.max(Workout.duration_min)).filter(session_date >= lo, session_date <= hi).scalar()\<close>
\<close>

definition max_duration_between :: "workout list \<Rightarrow> date \<Rightarrow> date \<Rightarrow> int option" where
  "max_duration_between db lo hi =
     sql_max (map duration_min
       (filter (\<lambda>w. session_date w \<ge> lo \<and> session_date w \<le> hi) db))"

text \<open>
  The longest session among the rows dated from \<open>lo\<close> to \<open>hi\<close>, both included, and 0
  when there is none: the value that the query above followed by \<^verbatim>\<open>or 0\<close> yields.
\<close>

definition longest_between :: "workout list \<Rightarrow> date \<Rightarrow> date \<Rightarrow> int" where
  "longest_between db lo hi =
     (let ds = duration_min ` {w \<in> set db. lo \<le> session_date w \<and> session_date w \<le> hi}
      in if ds = {} then 0 else Max ds)"

text \<open>
  \<^verbatim>\<open>query(Workout.notes).filter(session_date >= lo, Workout.notes.isnot(None)).all()\<close>
\<close>

definition notes_since :: "workout list \<Rightarrow> date \<Rightarrow> string list" where
  "notes_since db lo =
     List.map_filter (\<lambda>w. if session_date w \<ge> lo then notes w else None) db"

subsection \<open>Risk flags\<close>

definition risk_flags :: "workout list \<Rightarrow> date \<Rightarrow> (string \<rightharpoonup> string) option" where
  "risk_flags db today =
     (let this_ws = fst (week_range today);
          this_we = snd (week_range today);
          prev_ws = this_ws - 7;
          prev_we = this_we - 7
      in do {
        this \<leftarrow> sum_week_metrics db this_ws this_we;
        prev \<leftarrow> sum_week_metrics db prev_ws prev_we;
        let flags = Map.empty;
        let flags =
          (if vert prev > 0 \<and> vert this > vert prev * 1.25
           then flags(''overuse_vertical'' \<mapsto> ''Vertical increased >25% week-over-week.'')
           else flags);
        let flags =
          (if avg_pack this - avg_pack prev > 5
           then flags(''overuse_pack'' \<mapsto> ''Average pack increased >5 lb week-over-week.'')
           else flags);
        let seven_days_ago = today - 7;
        let rpe_avg = avg_rpe_between db seven_days_ago today;
        let flags =
          (case rpe_avg of
             None \<Rightarrow> flags
           | Some a \<Rightarrow>
               if a \<ge> 7
               then flags(''overuse_rpe'' \<mapsto>
                      ''Average RPE '' @ [CHR 0xE2, CHR 0x89, CHR 0xA5]
                        @ ''7 over the last 7 days.'')
               else flags);
        let tgt = phase_for today;
        this_ratio \<leftarrow>
          (if vert_min tgt \<noteq> 0
           then py_truediv (vert this) (of_int (max (vert_min tgt) 1)) else Some 0);
        prev_ratio \<leftarrow>
          (if vert_min tgt \<noteq> 0
           then py_truediv (vert prev) (of_int (max (vert_min tgt) 1)) else Some 0);
        let flags =
          (if this_ratio < 0.7 \<and> prev_ratio < 0.7
           then flags(''undertraining'' \<mapsto>
                  ''You hit <70% of weekly vertical target for 2 weeks.'')
           else flags);
        let fourteen_days_ago = today - 14;
        let recent_notes = notes_since db fourteen_days_ago;
        let keywords = [''pain'', ''knee'', ''foot'', ''shin'', ''achilles'', ''hip''];
        let flags =
          (if list_ex (\<lambda>n. n \<noteq> [] \<and> list_ex (\<lambda>k. py_in k (py_lower n)) keywords)
                recent_notes
           then flags(''injury_signal'' \<mapsto>
                  ''Notes mention possible injury signals in the last 14 days.'')
           else flags);
        Some flags
      })"

subsection \<open>Readiness score\<close>

text \<open>Line 198: the anchor of the vertical term, chosen by the phase's name.\<close>

definition peak_target :: "phase_targets \<Rightarrow> real" where
  "peak_target tgt = (if name tgt \<noteq> ''Peak'' then 9000 else 9000)"

text \<open>
  Lines 198 to 206 of \<^verbatim>\<open>readiness_score\<close>: the blend of the four-week mean vertical, the
  four-week mean pack and the longest session, rounded and clamped.
\<close>

definition readiness_blend :: "phase_targets \<Rightarrow> real \<Rightarrow> real \<Rightarrow> int \<Rightarrow> int" where
  "readiness_blend tgt four_week_avg_vert four_week_avg_pack max_long' =
     (let goal_pack = 30;
          s = (four_week_avg_vert / peak_target tgt) * 0.4
              + (four_week_avg_pack / goal_pack) * 0.3
              + (of_int max_long' / 90) * 0.3
      in max 0 (min 100 (py_round (s * 100))))"

definition readiness_score :: "workout list \<Rightarrow> date \<Rightarrow> date \<Rightarrow> int option" where
  "readiness_score db now today =
     do {
       series \<leftarrow> last_n_weeks_series db now 4;
       let verts = verts series;
       let packs = packs series;
       four_week_avg_vert \<leftarrow>
         py_truediv (of_int (sum_list verts)) (of_int (max (int (length verts)) 1));
       four_week_avg_pack \<leftarrow>
         py_truediv (sum_list packs) (of_int (max (int (length packs)) 1));
       let start_this_week = fst (week_range today);
       let start_4 = start_this_week - 28;
       let max_long =
         (case max_duration_between db start_4 today of
            None \<Rightarrow> 0
          | Some v \<Rightarrow> if v \<noteq> 0 then v else 0);
       let tgt = phase_for today;
       Some (readiness_blend tgt four_week_avg_vert four_week_avg_pack max_long)
     }"

text \<open>
  The score as the specification words it: the same steps, with the vertical anchor
  the fixed constant 9000 whatever the phase.
\<close>

definition readiness_blend_fixed :: "real \<Rightarrow> real \<Rightarrow> int \<Rightarrow> int" where
  "readiness_blend_fixed mean_vert mean_pack max_duration =
     (let raw = (mean_vert / 9000) * 0.4 + (mean_pack / 30) * 0.3
                + (of_int max_duration / 90) * 0.3
      in max 0 (min 100 (py_round (raw * 100))))"

definition readiness_score_fixed :: "workout list \<Rightarrow> date \<Rightarrow> date \<Rightarrow> int option" where
  "readiness_score_fixed db now today =
     do {
       series \<leftarrow> last_n_weeks_series db now 4;
       let verts = verts series;
       let packs = packs series;
       four_week_avg_vert \<leftarrow>
         py_truediv (of_int (sum_list verts)) (of_int (max (int (length verts)) 1));
       four_week_avg_pack \<leftarrow>
         py_truediv (sum_list packs) (of_int (max (int (length packs)) 1));
       let start_this_week = fst (week_range today);
       let start_4 = start_this_week - 28;
       let max_long =
         (case max_duration_between db start_4 today of
            None \<Rightarrow> 0
          | Some v \<Rightarrow> if v \<noteq> 0 then v else 0);
       Some (readiness_blend_fixed four_week_avg_vert four_week_avg_pack max_long)
     }"

section \<open>The calendar\<close>

text \<open>
  The year that \<open>date_year\<close> computes is the one whose days contain the date: the
  ordinals of a year \<open>y\<close> run from \<open>days_before_year y + 1\<close> to \<open>days_before_year (y + 1)\<close>.
\<close>

lemma div_by_parts:
  fixes q r k :: int
  assumes "0 \<le> r" "r < k"
  shows "(k * q + r) div k = q"
  using assms by (simp add: div_pos_pos_trivial)

lemma div_pred:
  fixes y k :: int
  assumes "0 < k"
  shows "(y - 1) div k = y div k - (if k dvd y then 1 else 0)"
proof (cases "k dvd y")
  case True
  then obtain q where q: "y = k * q" by (auto simp: dvd_def)
  have "y - 1 = k * (q - 1) + (k - 1)"
    by (simp add: q algebra_simps)
  moreover have "(k * (q - 1) + (k - 1)) div k = q - 1"
    using assms by (intro div_by_parts) simp_all
  ultimately have "(y - 1) div k = q - 1"
    by (simp only:)
  moreover have "y div k = q"
    using assms by (simp add: q)
  ultimately show ?thesis using True by simp
next
  case False
  have nn: "0 \<le> y mod k" and lt: "y mod k < k"
    using assms by simp_all
  have ne: "y mod k \<noteq> 0"
    using False by (simp add: dvd_eq_mod_eq_0)
  have "y - 1 = k * (y div k) + (y mod k - 1)"
    by simp
  moreover have "(k * (y div k) + (y mod k - 1)) div k = y div k"
    using nn lt ne by (intro div_by_parts) linarith+
  ultimately have "(y - 1) div k = y div k"
    by (simp only:)
  then show ?thesis using False by simp
qed

lemma days_before_year_step:
  "days_before_year (y + 1) = days_before_year y + (if is_leap y then 366 else 365)"
proof -
  define p4 where "p4 \<longleftrightarrow> 4 dvd y"
  define p100 where "p100 \<longleftrightarrow> 100 dvd y"
  define p400 where "p400 \<longleftrightarrow> 400 dvd y"
  have d4: "(y - 1) div 4 = y div 4 - (if p4 then 1 else 0)"
    unfolding p4_def by (rule div_pred) simp
  have d100: "(y - 1) div 100 = y div 100 - (if p100 then 1 else 0)"
    unfolding p100_def by (rule div_pred) simp
  have d400: "(y - 1) div 400 = y div 400 - (if p400 then 1 else 0)"
    unfolding p400_def by (rule div_pred) simp
  have diff: "days_before_year (y + 1) - days_before_year y =
      365 + (if p4 then 1 else 0) - (if p100 then 1 else 0) + (if p400 then 1 else 0)"
    unfolding days_before_year_def Let_def add_diff_cancel_right' d4 d100 d400
    by (simp only: algebra_simps)
  have a: "p4" if "p100"
    using dvd_trans [of 4 100 y] that unfolding p4_def p100_def by simp
  have b: "p100" if "p400"
    using dvd_trans [of 100 400 y] that unfolding p100_def p400_def by simp
  have leap: "is_leap y = (p4 \<and> (\<not> p100 \<or> p400))"
    unfolding is_leap_def p4_def p100_def p400_def by (simp only: dvd_eq_mod_eq_0)
  have "days_before_year (y + 1) - days_before_year y = (if is_leap y then 366 else 365)"
    unfolding diff leap using a b by (cases p4; cases p100; cases p400) simp_all
  then show ?thesis by linarith
qed

lemma days_before_year_mono_step: "days_before_year y < days_before_year (y + 1)"
  by (simp add: days_before_year_step)

lemma days_before_year_mono:
  assumes "y \<le> z"
  shows "days_before_year y \<le> days_before_year z"
proof -
  have "days_before_year y \<le> days_before_year (y + int k)" for k
  proof (induction k)
    case 0
    show ?case by simp
  next
    case (Suc k)
    have eq: "y + int (Suc k) = y + int k + 1"
      by simp
    show ?case
      unfolding eq using Suc days_before_year_mono_step [of "y + int k"] by linarith
  qed
  from this [of "nat (z - y)"] assms show ?thesis by simp
qed

lemma days_before_year_decomp:
  fixes a b c e :: int
  assumes "0 \<le> b" "b \<le> 3" "0 \<le> c" "c \<le> 24" "0 \<le> e" "e \<le> 3"
  shows "days_before_year (400 * a + 100 * b + 4 * c + e + 1) =
           146097 * a + 36524 * b + 1461 * c + 365 * e"
proof -
  let ?y = "400 * a + 100 * b + 4 * c + e"
  have d4: "?y div 4 = 100 * a + 25 * b + c"
    using div_by_parts [of e 4 "100 * a + 25 * b + c"] assms by (simp add: algebra_simps)
  have d100: "?y div 100 = 4 * a + b"
    using div_by_parts [of "4 * c + e" 100 "4 * a + b"] assms by (simp add: algebra_simps)
  have d400: "?y div 400 = a"
    using div_by_parts [of "100 * b + 4 * c + e" 400 a] assms by (simp add: algebra_simps)
  show ?thesis
    unfolding days_before_year_def Let_def using d4 d100 d400 by simp
qed

lemma date_year_bounds:
  "days_before_year (date_year d) < d \<and> d \<le> days_before_year (date_year d + 1)"
proof -
  define n0 where "n0 = d - 1"
  define a where "a = n0 div 146097"
  define r where "r = n0 mod 146097"
  define b where "b = r div 36524"
  define r2 where "r2 = r mod 36524"
  define c where "c = r2 div 1461"
  define r3 where "r3 = r2 mod 1461"
  define e where "e = r3 div 365"
  define r4 where "r4 = r3 mod 365"
  have year: "date_year d =
      (if e = 4 \<or> b = 4 then 400 * a + 100 * b + 4 * c + e
       else 400 * a + 100 * b + 4 * c + e + 1)"
    unfolding date_year_def Let_def a_def b_def c_def e_def r_def r2_def r3_def n0_def
    by simp
  have n0: "n0 = 146097 * a + r" and r: "0 \<le> r" "r < 146097"
    by (simp_all add: a_def r_def)
  have r_eq: "r = 36524 * b + r2" and r2: "0 \<le> r2" "r2 < 36524"
    by (simp_all add: b_def r2_def)
  have r2_eq: "r2 = 1461 * c + r3" and r3: "0 \<le> r3" "r3 < 1461"
    by (simp_all add: c_def r3_def)
  have r3_eq: "r3 = 365 * e + r4" and r4: "0 \<le> r4" "r4 < 365"
    by (simp_all add: e_def r4_def)
  have d: "d = 1 + 146097 * a + 36524 * b + 1461 * c + 365 * e + r4"
    using n0 r_eq r2_eq r3_eq by (simp add: n0_def)
  have b: "0 \<le> b" "b \<le> 4" using r r2 r_eq by linarith+
  have c: "0 \<le> c" "c \<le> 24" using r2 r3 r2_eq by linarith+
  have e: "0 \<le> e" "e \<le> 4" using r3 r4 r3_eq by linarith+
  consider (century) "b = 4" | (leapday) "b \<le> 3" "e = 4" | (plain) "b \<le> 3" "e \<le> 3"
    using b e by linarith
  then show ?thesis
  proof cases
    case century
    then have z: "c = 0" "e = 0" "r4 = 0"
      using r r2 r3 r4 r_eq r2_eq r3_eq c e by linarith+
    have lo: "days_before_year (400 * a + 100 * 3 + 4 * 24 + 3 + 1) =
        146097 * a + 36524 * 3 + 1461 * 24 + 365 * 3"
      by (rule days_before_year_decomp) simp_all
    have hi: "days_before_year (400 * (a + 1) + 100 * 0 + 4 * 0 + 0 + 1) =
        146097 * (a + 1) + 36524 * 0 + 1461 * 0 + 365 * 0"
      by (rule days_before_year_decomp) simp_all
    have y: "date_year d = 400 * a + 400" using year century z by simp
    have "days_before_year (date_year d) = 146097 * a + 145731"
      unfolding y using lo by (simp add: algebra_simps)
    moreover have "days_before_year (date_year d + 1) = 146097 * a + 146097"
      unfolding y using hi by (simp add: algebra_simps)
    ultimately show ?thesis using d century z by simp
  next
    case leapday
    then have z: "r4 = 0" "c \<le> 23"
      using r2 r3 r4 r2_eq r3_eq c by linarith+
    have lo: "days_before_year (400 * a + 100 * b + 4 * c + 3 + 1) =
        146097 * a + 36524 * b + 1461 * c + 365 * 3"
      using b c leapday z by (intro days_before_year_decomp) simp_all
    have hi: "days_before_year (400 * a + 100 * b + 4 * (c + 1) + 0 + 1) =
        146097 * a + 36524 * b + 1461 * (c + 1) + 365 * 0"
      using b c leapday z by (intro days_before_year_decomp) simp_all
    have y: "date_year d = 400 * a + 100 * b + 4 * c + 4" using year leapday by simp
    have "days_before_year (date_year d) = 146097 * a + 36524 * b + 1461 * c + 1095"
      unfolding y using lo by (simp add: algebra_simps)
    moreover have "days_before_year (date_year d + 1) =
        146097 * a + 36524 * b + 1461 * c + 1461"
      unfolding y using hi by (simp add: algebra_simps)
    ultimately show ?thesis using d leapday z by simp
  next
    case plain
    have y: "date_year d = 400 * a + 100 * b + 4 * c + e + 1" using year plain by auto
    have lo: "days_before_year (400 * a + 100 * b + 4 * c + e + 1) =
        146097 * a + 36524 * b + 1461 * c + 365 * e"
      using b c e plain by (intro days_before_year_decomp) simp_all
    have "days_before_year (date_year d) + 365 \<le> days_before_year (date_year d + 1)"
      by (simp add: days_before_year_step)
    moreover have "days_before_year (date_year d) =
        146097 * a + 36524 * b + 1461 * c + 365 * e"
      unfolding y using lo by simp
    ultimately show ?thesis using d r4 by simp
  qed
qed

lemma date_year_unique:
  assumes "days_before_year y < d" "d \<le> days_before_year (y + 1)"
  shows "date_year d = y"
proof (rule ccontr)
  assume neq: "date_year d \<noteq> y"
  have bd: "days_before_year (date_year d) < d" "d \<le> days_before_year (date_year d + 1)"
    using date_year_bounds [of d] by simp_all
  show False
  proof (cases "date_year d < y")
    case True
    then have "days_before_year (date_year d + 1) \<le> days_before_year y"
      by (intro days_before_year_mono) simp
    with bd assms show False by simp
  next
    case False
    with neq have "days_before_year (y + 1) \<le> days_before_year (date_year d)"
      by (intro days_before_year_mono) simp
    with bd assms show False by simp
  qed
qed

lemma ymd2ord_jan1: "ymd2ord y 1 1 = days_before_year y + 1"
  by (simp add: ymd2ord_def days_before_month_def)

lemma ymd2ord_apr1: "ymd2ord y 4 1 = days_before_year y + (if is_leap y then 92 else 91)"
  by (simp add: ymd2ord_def days_before_month_def)

lemma ymd2ord_jun1: "ymd2ord y 6 1 = days_before_year y + (if is_leap y then 153 else 152)"
  by (simp add: ymd2ord_def days_before_month_def)

lemma ymd2ord_aug1: "ymd2ord y 8 1 = days_before_year y + (if is_leap y then 214 else 213)"
  by (simp add: ymd2ord_def days_before_month_def)

lemmas ymd2ord_firsts = ymd2ord_jan1 ymd2ord_apr1 ymd2ord_jun1 ymd2ord_aug1

lemma date_year_within:
  assumes "ymd2ord y 1 1 \<le> d" "d < ymd2ord (y + 1) 1 1"
  shows "date_year d = y"
  using assms by (intro date_year_unique) (simp_all add: ymd2ord_jan1)

section \<open>Derived metrics of a record\<close>

text \<open>
  C4. For every record, \<open>vertical_ft = distance_mi * 5280 * (incline_pct / 100)\<close>,
  \<open>load_score = vertical_ft * (1 + pack_lb / 50)\<close> and
  \<open>session_stress = duration_min * max(rpe, 1) * (1 + pack_lb / 40)\<close>; the record with
  duration 90, distance 3.0, incline 20, pack 25 and rpe 7 has vertical 3168.0, load score
  4752.0 and session stress 1023.75.
\<close>

theorem metrics_formulas:
  "vertical_ft w = distance_mi w * 5280 * (incline_pct w / 100)
   \<and> load_score w = vertical_ft w * (1 + pack_lb w / 50)
   \<and> session_stress w =
       of_int (duration_min w) * of_int (max (rpe w) 1) * (1 + pack_lb w / 40)
   \<and> vertical_ft \<lparr>workout_id = i, session_date = d, wtype = ''incline'',
         duration_min = 90, distance_mi = 3, incline_pct = 20, pack_lb = 25, rpe = 7,
         notes = n\<rparr> = 3168
   \<and> load_score \<lparr>workout_id = i, session_date = d, wtype = ''incline'',
         duration_min = 90, distance_mi = 3, incline_pct = 20, pack_lb = 25, rpe = 7,
         notes = n\<rparr> = 4752
   \<and> session_stress \<lparr>workout_id = i, session_date = d, wtype = ''incline'',
         duration_min = 90, distance_mi = 3, incline_pct = 20, pack_lb = 25, rpe = 7,
         notes = n\<rparr> = 1023.75"
  by (simp add: vertical_ft_def load_score_def session_stress_def)

section \<open>Phases of the year\<close>

text \<open>
  C5. \<open>phase_for\<close> is total and cuts every calendar year \<open>y\<close> into four contiguous
  half-open intervals: from 1 January to 1 April it returns Base (vertical 1500 to 2000,
  long 45 to 60, pack 0 to 5), from 1 April to 1 June Build (3000 to 4500, 60 to 75, 10 to
  20), from 1 June to 1 August Peak (6000 to 9000, 75 to 90, 20 to 35), from 1 August to
  the next 1 January Taper (2000 to 3000, 45 to 60, 0 to 15). The four boundaries are in
  strictly increasing order, so no interval is empty and none overlaps another, and every
  date lies in the year that \<open>date_year\<close> gives it, so there is no gap.
\<close>

theorem phase_for_partition:
  "(ymd2ord y 1 1 \<le> d \<and> d < ymd2ord y 4 1 \<longrightarrow>
      phase_for d = \<lparr>name = ''Base'', vert_min = 1500, vert_max = 2000, long_min = 45,
        long_max = 60, pack_min = 0, pack_max = 5\<rparr>)
   \<and> (ymd2ord y 4 1 \<le> d \<and> d < ymd2ord y 6 1 \<longrightarrow>
      phase_for d = \<lparr>name = ''Build'', vert_min = 3000, vert_max = 4500, long_min = 60,
        long_max = 75, pack_min = 10, pack_max = 20\<rparr>)
   \<and> (ymd2ord y 6 1 \<le> d \<and> d < ymd2ord y 8 1 \<longrightarrow>
      phase_for d = \<lparr>name = ''Peak'', vert_min = 6000, vert_max = 9000, long_min = 75,
        long_max = 90, pack_min = 20, pack_max = 35\<rparr>)
   \<and> (ymd2ord y 8 1 \<le> d \<and> d < ymd2ord (y + 1) 1 1 \<longrightarrow>
      phase_for d = \<lparr>name = ''Taper'', vert_min = 2000, vert_max = 3000, long_min = 45,
        long_max = 60, pack_min = 0, pack_max = 15\<rparr>)
   \<and> ymd2ord y 1 1 < ymd2ord y 4 1 \<and> ymd2ord y 4 1 < ymd2ord y 6 1
   \<and> ymd2ord y 6 1 < ymd2ord y 8 1 \<and> ymd2ord y 8 1 < ymd2ord (y + 1) 1 1
   \<and> ymd2ord (date_year d) 1 1 \<le> d \<and> d < ymd2ord (date_year d + 1) 1 1"
proof -
  have order: "ymd2ord y 1 1 < ymd2ord y 4 1" "ymd2ord y 4 1 < ymd2ord y 6 1"
    "ymd2ord y 6 1 < ymd2ord y 8 1" "ymd2ord y 8 1 < ymd2ord (y + 1) 1 1"
    by (simp_all add: ymd2ord_firsts days_before_year_step)
  have base: "phase_for d = PhaseTargets ''Base'' 1500 2000 45 60 0 5"
    if "ymd2ord y 1 1 \<le> d" "d < ymd2ord y 4 1"
  proof -
    have "date_year d = y" using that order by (intro date_year_within) linarith+
    then show ?thesis using that by (simp add: phase_for_def Let_def)
  qed
  have build: "phase_for d = PhaseTargets ''Build'' 3000 4500 60 75 10 20"
    if "ymd2ord y 4 1 \<le> d" "d < ymd2ord y 6 1"
  proof -
    have "date_year d = y" using that order by (intro date_year_within) linarith+
    then show ?thesis using that by (simp add: phase_for_def Let_def)
  qed
  have peak: "phase_for d = PhaseTargets ''Peak'' 6000 9000 75 90 20 35"
    if "ymd2ord y 6 1 \<le> d" "d < ymd2ord y 8 1"
  proof -
    have "date_year d = y" using that order by (intro date_year_within) linarith+
    then show ?thesis using that order by (simp add: phase_for_def Let_def)
  qed
  have taper: "phase_for d = PhaseTargets ''Taper'' 2000 3000 45 60 0 15"
    if "ymd2ord y 8 1 \<le> d" "d < ymd2ord (y + 1) 1 1"
  proof -
    have "date_year d = y" using that order by (intro date_year_within) linarith+
    then show ?thesis using that order by (simp add: phase_for_def Let_def)
  qed
  have year: "ymd2ord (date_year d) 1 1 \<le> d" "d < ymd2ord (date_year d + 1) 1 1"
    using date_year_bounds [of d] by (simp_all add: ymd2ord_jan1)
  show ?thesis
    using order year base build peak taper by (simp add: PhaseTargets_def)
qed

theorem phase_for_partition_witness:
  "(ymd2ord 2024 1 1 \<le> ymd2ord 2024 2 10 \<and> ymd2ord 2024 2 10 < ymd2ord 2024 4 1
      \<and> phase_for (ymd2ord 2024 2 10) = \<lparr>name = ''Base'', vert_min = 1500, vert_max = 2000,
           long_min = 45, long_max = 60, pack_min = 0, pack_max = 5\<rparr>)
   \<and> (ymd2ord 2024 4 1 \<le> ymd2ord 2024 5 15 \<and> ymd2ord 2024 5 15 < ymd2ord 2024 6 1
      \<and> phase_for (ymd2ord 2024 5 15) = \<lparr>name = ''Build'', vert_min = 3000, vert_max = 4500,
           long_min = 60, long_max = 75, pack_min = 10, pack_max = 20\<rparr>)
   \<and> (ymd2ord 2024 6 1 \<le> ymd2ord 2024 7 4 \<and> ymd2ord 2024 7 4 < ymd2ord 2024 8 1
      \<and> phase_for (ymd2ord 2024 7 4) = \<lparr>name = ''Peak'', vert_min = 6000, vert_max = 9000,
           long_min = 75, long_max = 90, pack_min = 20, pack_max = 35\<rparr>)
   \<and> (ymd2ord 2024 8 1 \<le> ymd2ord 2024 12 31 \<and> ymd2ord 2024 12 31 < ymd2ord (2024 + 1) 1 1
      \<and> phase_for (ymd2ord 2024 12 31) = \<lparr>name = ''Taper'', vert_min = 2000, vert_max = 3000,
           long_min = 45, long_max = 60, pack_min = 0, pack_max = 15\<rparr>)"
proof -
  have ords: "ymd2ord 2024 1 1 = 738886" "ymd2ord 2024 2 10 = 738926"
    "ymd2ord 2024 4 1 = 738977" "ymd2ord 2024 5 15 = 739021" "ymd2ord 2024 6 1 = 739038"
    "ymd2ord 2024 7 4 = 739071" "ymd2ord 2024 8 1 = 739099" "ymd2ord 2024 12 31 = 739251"
    "ymd2ord (2024 + 1) 1 1 = 739252"
    by (simp_all add: ymd2ord_def days_before_year_def days_before_month_def is_leap_def)
  show ?thesis
    using phase_for_partition [of 2024 "ymd2ord 2024 2 10"]
      phase_for_partition [of 2024 "ymd2ord 2024 5 15"]
      phase_for_partition [of 2024 "ymd2ord 2024 7 4"]
      phase_for_partition [of 2024 "ymd2ord 2024 12 31"]
    unfolding ords by simp
qed

section \<open>The week window\<close>

lemma weekday_iso: "weekday d = isoweekday d - 1"
  unfolding weekday_def isoweekday_def by presburger

lemma isoweekday_range: "1 \<le> isoweekday d \<and> isoweekday d \<le> 7"
  unfolding isoweekday_def by presburger

lemma isoweekday_week_start: "isoweekday (d - weekday d) = 1"
  unfolding weekday_def isoweekday_def by presburger

lemma week_range_offsets:
  "d - 6 \<le> fst (week_range d) \<and> fst (week_range d) \<le> d
   \<and> d < snd (week_range d) \<and> snd (week_range d) \<le> d + 7"
  using isoweekday_range [of d] by (simp add: week_range_def Let_def weekday_iso)

lemma computed_dates_in_range:
  assumes "in_date_range (today - 34)" "in_date_range (today + 7)"
  shows "in_date_range (fst (week_range today) - 28) \<and> in_date_range (snd (week_range today))"
  using assms week_range_offsets [of today] unfolding in_date_range_def by linarith

text \<open>
  C6. For every date \<open>d\<close> the week window is Monday-anchored and half-open: its start is
  \<open>d\<close> minus \<open>isoweekday d - 1\<close> days, its end is the start plus 7 days, \<open>d\<close> lies from
  the start up to, not including, the end, the start is a Monday, and the offset of \<open>d\<close>
  from the start is 0 exactly when \<open>d\<close> is a Monday.
\<close>

theorem week_range_monday_anchored:
  "week_range d = (d - (isoweekday d - 1), d - (isoweekday d - 1) + 7)
   \<and> fst (week_range d) \<le> d \<and> d < snd (week_range d)
   \<and> isoweekday (fst (week_range d)) = 1
   \<and> (d - fst (week_range d) = 0) = (isoweekday d = 1)"
  using isoweekday_range [of d] isoweekday_week_start [of d]
  by (simp add: week_range_def Let_def weekday_iso)

section \<open>Weekly aggregation\<close>

lemma py_truediv_max: "py_truediv a (of_int (max k 1)) = Some (a / of_int (max k 1))"
  by (simp add: py_truediv_def max_def)

lemma sum_week_metrics_total: "\<exists>m. sum_week_metrics db start end = Some m"
  by (simp add: sum_week_metrics_def Let_def py_truediv_def)

lemma sum_week_metrics_no_rows:
  assumes "\<forall>w\<in>set db. \<not> (start \<le> session_date w \<and> session_date w < end)"
  shows "sum_week_metrics db start end =
    Some \<lparr>vert = 0, stress = 0, avg_pack = 0, max_long = 0, count = 0, missed = 0\<rparr>"
proof -
  have "filter (\<lambda>w. session_date w \<ge> start \<and> session_date w < end) db = []"
    using assms by (simp add: filter_empty_conv)
  then show ?thesis
    by (simp add: sum_week_metrics_def py_max_default_def)
qed

text \<open>
  C7. \<open>sum_week_metrics\<close> returns a value on every table and window (the division of
  the mean pack never raises), and on a window \<open>[start, end)\<close> with no matching record
  the value has vertical 0, stress 0, mean pack 0, longest session 0 and count 0.
\<close>

theorem sum_week_metrics_empty_window:
  "(\<exists>m. sum_week_metrics db start end = Some m)
   \<and> ((\<forall>w\<in>set db. \<not> (start \<le> session_date w \<and> session_date w < end)) \<longrightarrow>
        sum_week_metrics db start end =
          Some \<lparr>vert = 0, stress = 0, avg_pack = 0, max_long = 0, count = 0, missed = 0\<rparr>)"
  using sum_week_metrics_total [of db start "end"] sum_week_metrics_no_rows [of db start "end"]
  by blast

theorem sum_week_metrics_empty_window_witness:
  "sum_week_metrics
     [\<lparr>workout_id = 1, session_date = 738888, wtype = ''incline'', duration_min = 90,
       distance_mi = 3, incline_pct = 20, pack_lb = 25, rpe = 7, notes = None\<rparr>]
     738893 738900 =
   Some \<lparr>vert = 0, stress = 0, avg_pack = 0, max_long = 0, count = 0, missed = 0\<rparr>
   \<and> sum_week_metrics [] 738893 738900 =
   Some \<lparr>vert = 0, stress = 0, avg_pack = 0, max_long = 0, count = 0, missed = 0\<rparr>"
  using sum_week_metrics_empty_window
     [of "[\<lparr>workout_id = 1, session_date = 738888, wtype = ''incline'', duration_min = 90,
       distance_mi = 3, incline_pct = 20, pack_lb = 25, rpe = 7, notes = None\<rparr>]"
       738893 738900]
    sum_week_metrics_empty_window [of "[]" 738893 738900]
  by simp

section \<open>Risk flags\<close>

lemma week_range_snd: "snd (week_range d) = fst (week_range d) + 7"
  by (simp add: week_range_def Let_def)

text \<open>
  C10. For every date \<open>today\<close>, when the table has no record dated in the current
  Monday-anchored week or in the week before it (as when the table is empty),
  \<open>risk_flags\<close> returns the \<^verbatim>\<open>undertraining\<close> flag: both weekly ratios are 0, below 0.7.
\<close>

theorem undertraining_on_empty_weeks:
  assumes "\<forall>w\<in>set db. \<not> (fst (week_range today) - 7 \<le> session_date w
              \<and> session_date w < snd (week_range today))"
  shows "\<exists>flags. risk_flags db today = Some flags
           \<and> flags ''undertraining'' =
               Some ''You hit <70% of weekly vertical target for 2 weeks.''"
proof -
  let ?zero = "\<lparr>vert = 0, stress = 0, avg_pack = 0, max_long = 0, count = 0, missed = 0\<rparr>"
  have cur: "sum_week_metrics db (fst (week_range today)) (snd (week_range today)) =
      Some ?zero"
    using assms by (intro sum_week_metrics_no_rows) auto
  have prev: "sum_week_metrics db (fst (week_range today) - 7) (snd (week_range today) - 7) =
      Some ?zero"
    using assms by (intro sum_week_metrics_no_rows) (auto simp: week_range_snd)
  show ?thesis
    unfolding risk_flags_def Let_def cur prev
    by (simp add: py_truediv_max split: option.split)
qed

theorem undertraining_on_empty_weeks_witness:
  "(\<exists>flags. risk_flags [] 738895 = Some flags
      \<and> flags ''undertraining'' =
          Some ''You hit <70% of weekly vertical target for 2 weeks.'')
   \<and> (\<exists>flags.
        risk_flags
          [\<lparr>workout_id = 1, session_date = 738880, wtype = ''incline'', duration_min = 90,
            distance_mi = 3, incline_pct = 20, pack_lb = 25, rpe = 7, notes = None\<rparr>]
          738895 = Some flags
      \<and> flags ''undertraining'' =
          Some ''You hit <70% of weekly vertical target for 2 weeks.'')"
  using undertraining_on_empty_weeks [of "[]" 738895]
    undertraining_on_empty_weeks
      [of "[\<lparr>workout_id = 1, session_date = 738880, wtype = ''incline'', duration_min = 90,
            distance_mi = 3, incline_pct = 20, pack_lb = 25, rpe = 7, notes = None\<rparr>]"
        738895]
  by (simp add: week_range_def weekday_def)

lemma starts_with_iff: "starts_with s k \<longleftrightarrow> (\<exists>q. s = k @ q)"
  by (induction s k rule: starts_with.induct) auto

lemma py_in_iff: "py_in k s \<longleftrightarrow> (\<exists>p q. s = p @ k @ q)"
proof (induction s)
  case Nil
  show ?case by auto
next
  case (Cons c cs)
  show ?case
  proof
    assume "py_in k (c # cs)"
    then consider "starts_with (c # cs) k" | "py_in k cs" by auto
    then show "\<exists>p q. c # cs = p @ k @ q"
    proof cases
      case 1
      then obtain q where "c # cs = k @ q" by (auto simp: starts_with_iff)
      then have "c # cs = [] @ k @ q" by simp
      then show ?thesis by blast
    next
      case 2
      then obtain p q where "cs = p @ k @ q" using Cons.IH by blast
      then have "c # cs = (c # p) @ k @ q" by simp
      then show ?thesis by blast
    qed
  next
    assume "\<exists>p q. c # cs = p @ k @ q"
    then obtain p q where pq: "c # cs = p @ k @ q" by blast
    show "py_in k (c # cs)"
    proof (cases p)
      case Nil
      with pq have "starts_with (c # cs) k" by (auto simp: starts_with_iff)
      then show ?thesis by simp
    next
      case (Cons a p')
      with pq have "cs = p' @ k @ q" by simp
      then have "py_in k cs" using Cons.IH by blast
      then show ?thesis by simp
    qed
  qed
qed

lemma set_notes_since:
  "set (notes_since db lo) = {n. \<exists>w\<in>set db. lo \<le> session_date w \<and> notes w = Some n}"
  unfolding notes_since_def
  by (induction db) (auto simp: List.map_filter_simps split: option.splits if_splits)

lemma risk_flags_total: "\<exists>flags. risk_flags db today = Some flags"
proof -
  obtain cur prev where
    "sum_week_metrics db (fst (week_range today)) (snd (week_range today)) = Some cur"
    "sum_week_metrics db (fst (week_range today) - 7) (snd (week_range today) - 7) = Some prev"
    using sum_week_metrics_total by meson
  then show ?thesis
    unfolding risk_flags_def Let_def by (simp add: py_truediv_max)
qed

lemma overuse_rpe_iff:
  assumes "risk_flags db today = Some flags"
  shows "flags ''overuse_rpe'' \<noteq> None \<longleftrightarrow>
    (\<exists>a. avg_rpe_between db (today - 7) today = Some a \<and> 7 \<le> a)"
proof -
  obtain cur prev where
    "sum_week_metrics db (fst (week_range today)) (snd (week_range today)) = Some cur"
    "sum_week_metrics db (fst (week_range today) - 7) (snd (week_range today) - 7) = Some prev"
    using sum_week_metrics_total by meson
  with assms show ?thesis
    unfolding risk_flags_def Let_def
    by (auto simp: py_truediv_max split: option.splits if_splits)
qed

lemma injury_signal_iff:
  assumes "risk_flags db today = Some flags"
  shows "flags ''injury_signal'' \<noteq> None \<longleftrightarrow>
    (\<exists>w\<in>set db. today - 14 \<le> session_date w \<and>
       (\<exists>n. notes w = Some n \<and> n \<noteq> [] \<and>
          (\<exists>k\<in>set [''pain'', ''knee'', ''foot'', ''shin'', ''achilles'', ''hip''].
             py_in k (py_lower n))))"
proof -
  define hit where "hit \<longleftrightarrow>
    list_ex (\<lambda>n. n \<noteq> [] \<and>
        list_ex (\<lambda>k. py_in k (py_lower n))
          [''pain'', ''knee'', ''foot'', ''shin'', ''achilles'', ''hip''])
      (notes_since db (today - 14))"
  obtain cur prev where
    "sum_week_metrics db (fst (week_range today)) (snd (week_range today)) = Some cur"
    "sum_week_metrics db (fst (week_range today) - 7) (snd (week_range today) - 7) = Some prev"
    using sum_week_metrics_total by meson
  with assms have "flags ''injury_signal'' \<noteq> None \<longleftrightarrow> hit"
    unfolding risk_flags_def Let_def hit_def [symmetric]
    by (auto simp: py_truediv_max split: option.splits if_splits)
  also have "hit \<longleftrightarrow>
    (\<exists>w\<in>set db. today - 14 \<le> session_date w \<and>
       (\<exists>n. notes w = Some n \<and> n \<noteq> [] \<and>
          (\<exists>k\<in>set [''pain'', ''knee'', ''foot'', ''shin'', ''achilles'', ''hip''].
             py_in k (py_lower n))))"
    unfolding hit_def list_ex_iff set_notes_since by blast
  finally show ?thesis .
qed

text \<open>
  C1. The claim: \<open>risk_flags\<close> raises \<^verbatim>\<open>overuse_rpe\<close> exactly when the mean RPE of the
  records dated in the seven days \<open>[today - 6, today]\<close> is at least 7, and not when that
  window has no record. The code averages over \<open>[today - 7, today]\<close>, which has eight days
  (\<open>overuse_rpe_iff\<close>), although its comment and its message say "the last 7 days". On
  10 January 2024, with one accepted record dated 3 January of RPE 10, the seven-day
  window has no record and the flag is raised.
\<close>

theorem overuse_rpe_eighth_day:
  "accepted
     \<lparr>workout_id = 1, session_date = ymd2ord 2024 1 3, wtype = ''incline'',
        duration_min = 60, distance_mi = 2, incline_pct = 10, pack_lb = 20, rpe = 10,
        notes = None\<rparr>
   \<and> avg_rpe_between
       [\<lparr>workout_id = 1, session_date = ymd2ord 2024 1 3, wtype = ''incline'',
        duration_min = 60, distance_mi = 2, incline_pct = 10, pack_lb = 20, rpe = 10,
        notes = None\<rparr>]
       (ymd2ord 2024 1 10 - 6) (ymd2ord 2024 1 10) = None
   \<and> avg_rpe_between
       [\<lparr>workout_id = 1, session_date = ymd2ord 2024 1 3, wtype = ''incline'',
        duration_min = 60, distance_mi = 2, incline_pct = 10, pack_lb = 20, rpe = 10,
        notes = None\<rparr>]
       (ymd2ord 2024 1 10 - 7) (ymd2ord 2024 1 10) = Some 10
   \<and> Option.bind
       (risk_flags
          [\<lparr>workout_id = 1, session_date = ymd2ord 2024 1 3, wtype = ''incline'',
        duration_min = 60, distance_mi = 2, incline_pct = 10, pack_lb = 20, rpe = 10,
        notes = None\<rparr>]
          (ymd2ord 2024 1 10))
       (\<lambda>flags. flags ''overuse_rpe'') =
     Some (''Average RPE '' @ [CHR 0xE2, CHR 0x89, CHR 0xA5] @ ''7 over the last 7 days.'')"
  by code_simp

text \<open>
  C3. The claim: \<open>risk_flags\<close> raises \<^verbatim>\<open>injury_signal\<close> exactly when a record dated in
  \<open>[today - 14, today]\<close> has a note that contains, in any case, one of the six keywords; a
  note "mild right knee soreness" dated 10 days before \<open>today\<close> raises it, the same note
  dated 15 days before does not. The code's query has the lower bound only
  (\<open>injury_signal_iff\<close>), where the queries of the RPE rule and of the score also bound the
  date by \<open>today\<close>, and the message says "in the last 14 days". On 10 January 2024, with
  one accepted record dated 11 January whose note mentions a knee, no record is dated in
  \<open>[today - 14, today]\<close> and the flag is raised. The two examples of the claim hold.
\<close>

theorem injury_signal_future_note:
  "accepted
     \<lparr>workout_id = 1, session_date = ymd2ord 2024 1 11, wtype = ''incline'',
        duration_min = 60, distance_mi = 2, incline_pct = 10, pack_lb = 20, rpe = 5,
        notes = Some ''Sore knee after the descent''\<rparr>
   \<and> \<not> (ymd2ord 2024 1 10 - 14 \<le> ymd2ord 2024 1 11 \<and> ymd2ord 2024 1 11 \<le> ymd2ord 2024 1 10)
   \<and> Option.bind
       (risk_flags
          [\<lparr>workout_id = 1, session_date = ymd2ord 2024 1 11, wtype = ''incline'',
        duration_min = 60, distance_mi = 2, incline_pct = 10, pack_lb = 20, rpe = 5,
        notes = Some ''Sore knee after the descent''\<rparr>]
          (ymd2ord 2024 1 10))
       (\<lambda>flags. flags ''injury_signal'') =
     Some ''Notes mention possible injury signals in the last 14 days.''
   \<and> ymd2ord 2023 12 31 = ymd2ord 2024 1 10 - 10
   \<and> Option.bind
       (risk_flags
          [\<lparr>workout_id = 1, session_date = ymd2ord 2023 12 31, wtype = ''incline'',
        duration_min = 60, distance_mi = 2, incline_pct = 10, pack_lb = 20, rpe = 5,
        notes = Some ''mild right knee soreness''\<rparr>]
          (ymd2ord 2024 1 10))
       (\<lambda>flags. flags ''injury_signal'') =
     Some ''Notes mention possible injury signals in the last 14 days.''
   \<and> ymd2ord 2023 12 26 = ymd2ord 2024 1 10 - 15
   \<and> Option.bind
       (risk_flags
          [\<lparr>workout_id = 1, session_date = ymd2ord 2023 12 26, wtype = ''incline'',
        duration_min = 60, distance_mi = 2, incline_pct = 10, pack_lb = 20, rpe = 5,
        notes = Some ''mild right knee soreness''\<rparr>]
          (ymd2ord 2024 1 10))
       (\<lambda>flags. flags ''injury_signal'') = None"
  by code_simp

section \<open>Readiness score\<close>

lemma py_round_floor: "\<lfloor>x\<rfloor> \<le> py_round x \<and> py_round x \<le> \<lfloor>x\<rfloor> + 1"
  by (simp add: py_round_def Let_def)

lemma py_round_mono:
  assumes "x \<le> y"
  shows "py_round x \<le> py_round y"
proof (cases "\<lfloor>x\<rfloor> = \<lfloor>y\<rfloor>")
  case True
  with assms show ?thesis
    by (auto simp: py_round_def Let_def)
next
  case False
  with assms have "\<lfloor>x\<rfloor> + 1 \<le> \<lfloor>y\<rfloor>"
    using floor_mono [of x y] by linarith
  with py_round_floor [of x] py_round_floor [of y] show ?thesis
    by linarith
qed

lemma peak_target_const: "peak_target tgt = 9000"
  by (simp add: peak_target_def)

lemma readiness_blend_mono:
  assumes "v \<le> v'" "p \<le> p'" "m \<le> m'"
  shows "readiness_blend tgt v p m \<le> readiness_blend tgt v' p' m'"
proof -
  have "(v / 9000 * 0.4 + p / 30 * 0.3 + of_int m / 90 * 0.3) * 100
      \<le> (v' / 9000 * 0.4 + p' / 30 * 0.3 + of_int m' / 90 * 0.3) * 100"
    using assms by simp
  then have "py_round ((v / 9000 * 0.4 + p / 30 * 0.3 + of_int m / 90 * 0.3) * 100)
      \<le> py_round ((v' / 9000 * 0.4 + p' / 30 * 0.3 + of_int m' / 90 * 0.3) * 100)"
    by (rule py_round_mono)
  then show ?thesis
    unfolding readiness_blend_def Let_def peak_target_const by linarith
qed

lemma readiness_blend_range: "0 \<le> readiness_blend tgt v p m \<and> readiness_blend tgt v p m \<le> 100"
  by (simp add: readiness_blend_def Let_def)

lemma series_loop_total:
  "\<exists>s. series_loop db st offs acc = Some s
     \<and> length (verts s) = length (verts acc) + length offs
     \<and> length (packs s) = length (packs acc) + length offs"
proof (induction offs arbitrary: acc)
  case Nil
  show ?case by simp
next
  case (Cons i rest)
  obtain m where m: "sum_week_metrics db (st - 7 * i) (st - 7 * i + 7) = Some m"
    using sum_week_metrics_total by blast
  show ?case
    using Cons.IH [of "\<lparr>weeks = weeks acc @ [st - 7 * i],
           verts = verts acc @ [py_round (vert m)],
           packs = packs acc @ [py_round1 (avg_pack m)],
           stresses = stresses acc @ [py_round1 (stress m)]\<rparr>"]
    by (simp add: Let_def m)
qed

lemma last_n_weeks_series_4:
  "\<exists>s. last_n_weeks_series db now 4 = Some s \<and> length (verts s) = 4 \<and> length (packs s) = 4"
  using series_loop_total [of db "fst (week_range now)" "rev [0..4 - 1]"
      "\<lparr>weeks = [], verts = [], packs = [], stresses = []\<rparr>"]
  by (simp add: last_n_weeks_series_def Let_def)

lemma sql_max_Max: "sql_max xs = (if xs = [] then None else Some (Max (set xs)))"
proof (cases xs)
  case Nil
  then show ?thesis by (simp add: sql_max_def)
next
  case (Cons y ys)
  have "fold max ys y = Max (set xs)"
    unfolding Cons by (rule Max.set_eq_fold [symmetric])
  then show ?thesis by (simp add: sql_max_def Cons)
qed

lemma max_duration_or_0:
  "(case max_duration_between db lo hi of None \<Rightarrow> 0 | Some v \<Rightarrow> if v \<noteq> 0 then v else 0)
     = longest_between db lo hi"
proof -
  have "set (map duration_min (filter (\<lambda>w. lo \<le> session_date w \<and> session_date w \<le> hi) db))
      = duration_min ` {w \<in> set db. lo \<le> session_date w \<and> session_date w \<le> hi}"
    by auto
  then show ?thesis
    unfolding max_duration_between_def sql_max_Max longest_between_def Let_def
    by (auto simp: filter_empty_conv)
qed

lemma readiness_score_range:
  "\<exists>r. readiness_score db now today = Some r \<and> 0 \<le> r \<and> r \<le> 100"
proof -
  obtain s where s: "last_n_weeks_series db now 4 = Some s"
    "length (verts s) = 4" "length (packs s) = 4"
    using last_n_weeks_series_4 by blast
  show ?thesis
    unfolding readiness_score_def s
    by (simp add: s py_truediv_def readiness_blend_range)
qed

text \<open>
  C8. The score is non-decreasing in the mean vertical, in the mean pack and in the longest
  session, each with the other two fixed; it lies from 0 to 100 whatever the inputs, so
  also at a mean vertical of 50000; and \<open>readiness_score\<close> returns such a value on every
  table and date.
\<close>

theorem readiness_blend_monotone_bounded:
  "(v \<le> v' \<longrightarrow> readiness_blend tgt v p m \<le> readiness_blend tgt v' p m)
   \<and> (p \<le> p' \<longrightarrow> readiness_blend tgt v p m \<le> readiness_blend tgt v p' m)
   \<and> (m \<le> m' \<longrightarrow> readiness_blend tgt v p m \<le> readiness_blend tgt v p m')
   \<and> 0 \<le> readiness_blend tgt v p m \<and> readiness_blend tgt v p m \<le> 100
   \<and> readiness_blend tgt 50000 p m \<le> 100
   \<and> (\<exists>s. readiness_score db now today = Some s \<and> 0 \<le> s \<and> s \<le> 100)"
  using readiness_blend_mono [of v v' p p m m] readiness_blend_mono [of v v p p' m m]
    readiness_blend_mono [of v v p p m m'] readiness_blend_range [of tgt v p m]
    readiness_blend_range [of tgt 50000 p m] readiness_score_range [of db now today]
  by simp

theorem readiness_blend_monotone_bounded_witness:
  "((4500 :: real) \<le> 9000
      \<and> readiness_blend (phase_for 738895) 4500 15 45
          \<le> readiness_blend (phase_for 738895) 9000 15 45)
   \<and> ((15 :: real) \<le> 30
      \<and> readiness_blend (phase_for 738895) 4500 15 45
          \<le> readiness_blend (phase_for 738895) 4500 30 45)
   \<and> ((45 :: int) \<le> 90
      \<and> readiness_blend (phase_for 738895) 4500 15 45
          \<le> readiness_blend (phase_for 738895) 4500 15 90)"
  using readiness_blend_monotone_bounded [of 4500 9000 "phase_for 738895" 15 45 30 90]
  by simp

text \<open>
  C9. The phase-conditional expression that selects the vertical anchor is 9000 for every
  phase, and \<open>readiness_score\<close> equals the version that uses the constant 9000
  unconditionally.
\<close>

theorem peak_target_collapses:
  "peak_target tgt = 9000
   \<and> readiness_blend tgt v p m = readiness_blend_fixed v p m
   \<and> readiness_score db now today = readiness_score_fixed db now today"
  by (simp add: peak_target_const readiness_blend_def readiness_blend_fixed_def
      readiness_score_def readiness_score_fixed_def)

text \<open>
  C2, as the specification states it: the longest session that the score uses is the one
  over the records dated in \<open>[today - 28, today]\<close>, 0 when there is none. On Wednesday
  31 January 2024, with one record of 90 minutes dated Monday 1 January, that window is
  empty and the four weeks of the series are empty, so the score so computed would be
  \<open>readiness_blend _ 0 0 0 = 0\<close>; \<open>readiness_score\<close> returns 30.
\<close>

theorem longest_window_counterexample:
  "max_duration_between
     [\<lparr>workout_id = 1, session_date = ymd2ord 2024 1 1, wtype = ''strength'',
        duration_min = 90, distance_mi = 0, incline_pct = 0, pack_lb = 0, rpe = 5,
        notes = None\<rparr>]
     (ymd2ord 2024 1 31 - 28) (ymd2ord 2024 1 31) = None
   \<and> last_n_weeks_series
       [\<lparr>workout_id = 1, session_date = ymd2ord 2024 1 1, wtype = ''strength'',
        duration_min = 90, distance_mi = 0, incline_pct = 0, pack_lb = 0, rpe = 5,
        notes = None\<rparr>]
       (ymd2ord 2024 1 31) 4 =
     Some \<lparr>weeks = [ymd2ord 2024 1 8, ymd2ord 2024 1 15, ymd2ord 2024 1 22, ymd2ord 2024 1 29],
            verts = [0, 0, 0, 0], packs = [0, 0, 0, 0], stresses = [0, 0, 0, 0]\<rparr>
   \<and> readiness_blend (phase_for (ymd2ord 2024 1 31)) 0 0 0 = 0
   \<and> readiness_score
       [\<lparr>workout_id = 1, session_date = ymd2ord 2024 1 1, wtype = ''strength'',
        duration_min = 90, distance_mi = 0, incline_pct = 0, pack_lb = 0, rpe = 5,
        notes = None\<rparr>]
       (ymd2ord 2024 1 31) (ymd2ord 2024 1 31) = Some 30
   \<and> readiness_score
       [\<lparr>workout_id = 1, session_date = ymd2ord 2024 1 1, wtype = ''strength'',
        duration_min = 90, distance_mi = 0, incline_pct = 0, pack_lb = 0, rpe = 5,
        notes = None\<rparr>]
       (ymd2ord 2024 1 31) (ymd2ord 2024 1 31) \<noteq>
     Some (readiness_blend (phase_for (ymd2ord 2024 1 31)) 0 0
       (case max_duration_between
          [\<lparr>workout_id = 1, session_date = ymd2ord 2024 1 1, wtype = ''strength'',
            duration_min = 90, distance_mi = 0, incline_pct = 0, pack_lb = 0, rpe = 5,
            notes = None\<rparr>]
          (ymd2ord 2024 1 31 - 28) (ymd2ord 2024 1 31) of
        None \<Rightarrow> 0 | Some v \<Rightarrow> v))"
  by code_simp

text \<open>
  C2, amended: the longest session that the score uses is the one over the records dated
  from 28 days before the Monday of the week of \<open>today\<close> up to \<open>today\<close>, both included,
  0 when there is none; it enters the blend as the term of the longest session, beside the
  means of the four weekly verticals and of the four weekly mean packs of the series.
\<close>

theorem readiness_score_longest_window:
  "\<exists>s. last_n_weeks_series db now 4 = Some s
     \<and> readiness_score db now today =
         Some (readiness_blend (phase_for today)
                 (of_int (sum_list (verts s)) / 4) (sum_list (packs s) / 4)
                 (longest_between db (fst (week_range today) - 28) today))"
proof -
  obtain s where s: "last_n_weeks_series db now 4 = Some s"
    "length (verts s) = 4" "length (packs s) = 4"
    using last_n_weeks_series_4 by blast
  show ?thesis
    unfolding readiness_score_def s max_duration_or_0
    by (simp add: s py_truediv_def)
qed

end
